theory Spec2Isabelle
  imports Complex_Main "HOL-Library.Multiset"
begin

section \<open>Strings as the scorers use them\<close>

text \<open>
  Python strings are modelled as \<open>string\<close> (lists of 8-bit characters) holding ASCII text.
  The floats of the skills, education and experience scores and of the weighted sum are
  modelled as \<open>real\<close>: rounding is not part of the model, so every statement about such a
  score is a statement about the exact value of the expression the source evaluates. The
  similarity of two embeddings is computed by numpy and is modelled on doubles with
  infinities and nan.
\<close>

definition is_upper :: "char \<Rightarrow> bool" where
  "is_upper c = (65 \<le> (of_char c :: nat) \<and> (of_char c :: nat) \<le> 90)"

definition lower_char :: "char \<Rightarrow> char" where
  "lower_char c = (if is_upper c then char_of ((of_char c :: nat) + 32) else c)"

text \<open>\<^verbatim>\<open>s.lower()\<close> on ASCII text.\<close>

definition lower :: "string \<Rightarrow> string" where
  "lower s = map lower_char s"

fun startswith :: "string \<Rightarrow> string \<Rightarrow> bool" where
  "startswith s [] = True"
| "startswith [] (p # ps) = False"
| "startswith (c # cs) (p # ps) = (c = p \<and> startswith cs ps)"

text \<open>\<^verbatim>\<open>a in b\<close> for two strings: \<open>a\<close> occurs in \<open>b\<close> as a contiguous run.\<close>

fun py_in :: "string \<Rightarrow> string \<Rightarrow> bool" where
  "py_in a [] = (a = [])"
| "py_in a (c # cs) = (startswith (c # cs) a \<or> py_in a cs)"

text \<open>The test both scorers and the skill lists apply to a pair of phrases.\<close>

definition partial_match :: "string \<Rightarrow> string \<Rightarrow> bool" where
  "partial_match a b = (py_in a b \<or> py_in b a)"

section \<open>Skills\<close>

text \<open>
  \<^verbatim>\<open>calculate_skills_match\<close>: the loop adds one to \<^verbatim>\<open>matching_skills\<close> for every job skill
  that some resume skill contains or is contained in.
\<close>

fun count_matching_skills :: "string list \<Rightarrow> string list \<Rightarrow> nat \<Rightarrow> nat" where
  "count_matching_skills [] resume_skills_lower matching_skills = matching_skills"
| "count_matching_skills (job_skill # rest) resume_skills_lower matching_skills =
     count_matching_skills rest resume_skills_lower
       (if list_ex (\<lambda>resume_skill. py_in job_skill resume_skill \<or> py_in resume_skill job_skill)
             resume_skills_lower
        then matching_skills + 1 else matching_skills)"

definition calculate_skills_match :: "string list \<Rightarrow> string list \<Rightarrow> real" where
  "calculate_skills_match job_skills resume_skills =
     (if job_skills = [] then 0
      else if resume_skills = [] then 0
      else let job_skills_lower = map lower job_skills;
               resume_skills_lower = map lower resume_skills;
               matching_skills = count_matching_skills job_skills_lower resume_skills_lower 0
           in real matching_skills / real (length job_skills))"

section \<open>Education\<close>

definition education_keywords :: "string list" where
  "education_keywords = [''bachelor'', ''master'', ''phd'', ''degree'', ''diploma'', ''certificate'']"

text \<open>
  The innermost loop of \<^verbatim>\<open>calculate_education_match\<close> adds 0.5 at the first keyword that
  occurs in both phrases and leaves the keyword loop only.
\<close>

definition keyword_match :: "string \<Rightarrow> string \<Rightarrow> bool" where
  "keyword_match job_edu resume_edu =
     list_ex (\<lambda>keyword. py_in keyword job_edu \<and> py_in keyword resume_edu) education_keywords"

text \<open>
  The loop over the resume phrases for one job phrase: a containment adds 1 and leaves the
  loop; otherwise a shared keyword adds 0.5 and the loop goes on to the next resume phrase.
\<close>

fun education_resume_loop :: "string \<Rightarrow> string list \<Rightarrow> real \<Rightarrow> real" where
  "education_resume_loop job_edu [] matches = matches"
| "education_resume_loop job_edu (resume_edu # rest) matches =
     (if py_in job_edu resume_edu \<or> py_in resume_edu job_edu then matches + 1
      else education_resume_loop job_edu rest
             (if keyword_match job_edu resume_edu then matches + 0.5 else matches))"

fun education_job_loop :: "string list \<Rightarrow> string list \<Rightarrow> real \<Rightarrow> real" where
  "education_job_loop [] resume_edu_lower matches = matches"
| "education_job_loop (job_edu # rest) resume_edu_lower matches =
     education_job_loop rest resume_edu_lower
       (education_resume_loop job_edu resume_edu_lower matches)"

definition calculate_education_match :: "string list \<Rightarrow> string list \<Rightarrow> real" where
  "calculate_education_match job_education resume_education =
     (if job_education = [] then 1
      else if resume_education = [] then 0
      else let job_edu_lower = map lower job_education;
               resume_edu_lower = map lower resume_education;
               matches = education_job_loop job_edu_lower resume_edu_lower 0
           in min 1 (matches / real (length job_education)))"

section \<open>Experience\<close>

text \<open>
  The pattern \<^verbatim>\<open>(\d+)[\+]?\s*(year|yr|years|yrs)\<close> on ASCII text. Each of its parts either
  takes the next character or cannot match it at all (a digit is neither a plus sign, nor
  white space, nor the letter y), so giving back characters never turns a failed attempt
  into a match, and the attempt at one position is the greedy one written here.
\<close>

definition is_digit :: "char \<Rightarrow> bool" where
  "is_digit c = (48 \<le> (of_char c :: nat) \<and> (of_char c :: nat) \<le> 57)"

definition is_space :: "char \<Rightarrow> bool" where
  "is_space c = ((9 \<le> (of_char c :: nat) \<and> (of_char c :: nat) \<le> 13)
                 \<or> (28 \<le> (of_char c :: nat) \<and> (of_char c :: nat) \<le> 32))"

text \<open>\<^verbatim>\<open>int(s)\<close> on a run of decimal digits.\<close>

definition int_of_digits :: "string \<Rightarrow> nat" where
  "int_of_digits s = foldl (\<lambda>n c. 10 * n + ((of_char c :: nat) - 48)) 0 s"

definition year_units :: "string list" where
  "year_units = [''year'', ''yr'', ''years'', ''yrs'']"

text \<open>
  One attempt at the start of \<open>s\<close>: the first group as a number, and how many characters
  the whole match takes.
\<close>

definition match_years :: "string \<Rightarrow> (nat \<times> nat) option" where
  "match_years s =
     (let digits = takeWhile is_digit s;
          after_digits = dropWhile is_digit s;
          plus = (case after_digits of [] \<Rightarrow> [] | c # cs \<Rightarrow> if c = CHR ''+'' then [c] else []);
          after_plus = drop (length plus) after_digits;
          spaces = takeWhile is_space after_plus;
          after_spaces = dropWhile is_space after_plus
      in if digits = [] then None
         else (case find (startswith after_spaces) year_units of
                 None \<Rightarrow> None
               | Some unit \<Rightarrow>
                   Some (int_of_digits digits,
                         length digits + length plus + length spaces + length unit)))"

text \<open>
  \<^verbatim>\<open>re.findall(years_pattern, exp)\<close>, keeping the first group of each match: the scan tries
  every position from the left and resumes after a match. The first argument counts the
  characters of the last match still to be passed over.
\<close>

fun findall_years :: "nat \<Rightarrow> string \<Rightarrow> nat list" where
  "findall_years skip [] = []"
| "findall_years (Suc skip) (c # cs) = findall_years skip cs"
| "findall_years 0 (c # cs) =
     (case match_years (c # cs) of
        None \<Rightarrow> findall_years 0 cs
      | Some (years, len) \<Rightarrow> years # findall_years (len - 1) cs)"

text \<open>The two loops that fill \<^verbatim>\<open>job_years\<close> and \<^verbatim>\<open>resume_years\<close>.\<close>

definition collect_years :: "string list \<Rightarrow> nat list" where
  "collect_years exps = concat (map (findall_years 0) exps)"

text \<open>\<^verbatim>\<open>max(xs)\<close> of a list the source has found non-empty.\<close>

fun py_max :: "nat list \<Rightarrow> nat" where
  "py_max (x # xs) = foldl max x xs"
| "py_max [] = 0"

fun experience_resume_loop :: "string \<Rightarrow> string list \<Rightarrow> nat \<Rightarrow> nat" where
  "experience_resume_loop job_exp [] matches = matches"
| "experience_resume_loop job_exp (resume_exp # rest) matches =
     (if py_in job_exp resume_exp \<or> py_in resume_exp job_exp then matches + 1
      else experience_resume_loop job_exp rest matches)"

fun experience_job_loop :: "string list \<Rightarrow> string list \<Rightarrow> nat \<Rightarrow> nat" where
  "experience_job_loop [] resume_exp_lower matches = matches"
| "experience_job_loop (job_exp # rest) resume_exp_lower matches =
     experience_job_loop rest resume_exp_lower
       (experience_resume_loop job_exp resume_exp_lower matches)"

definition calculate_experience_match :: "string list \<Rightarrow> string list \<Rightarrow> real" where
  "calculate_experience_match job_experience resume_experience =
     (if job_experience = [] then 1
      else if resume_experience = [] then 0
      else let job_exp_lower = map lower job_experience;
               resume_exp_lower = map lower resume_experience;
               job_years = collect_years job_exp_lower;
               resume_years = collect_years resume_exp_lower
           in if job_years \<noteq> [] \<and> resume_years \<noteq> []
              then (let max_job_years = py_max job_years;
                        max_resume_years = py_max resume_years
                    in if max_resume_years \<ge> max_job_years then 1
                       else real max_resume_years / real max_job_years)
              else (let matches = experience_job_loop job_exp_lower resume_exp_lower 0
                    in min 1 (real matches / real (length job_experience))))"

section \<open>The education score, as computed and as claimed\<close>

text \<open>
  What one job phrase adds to \<^verbatim>\<open>matches\<close>, read off the loops: half a point for every
  resume phrase that shares a keyword with it and stands before the first resume phrase it
  matches by containment (all of them when there is none), and one point when some resume
  phrase matches by containment.
\<close>

definition education_points :: "string \<Rightarrow> string list \<Rightarrow> real" where
  "education_points job_edu resume_edus =
     0.5 * real (length (filter (keyword_match job_edu)
                   (takeWhile (\<lambda>resume_edu. \<not> partial_match job_edu resume_edu) resume_edus)))
     + (if \<exists>resume_edu \<in> set resume_edus. partial_match job_edu resume_edu then 1 else 0)"

text \<open>
  The score as the specification words it: per job phrase one point if some resume phrase
  matches by containment, else half a point if some resume phrase shares a keyword.
\<close>

definition claimed_education_points :: "string \<Rightarrow> string list \<Rightarrow> real" where
  "claimed_education_points job_edu resume_edus =
     (if \<exists>resume_edu \<in> set resume_edus. partial_match job_edu resume_edu then 1
      else if \<exists>resume_edu \<in> set resume_edus. keyword_match job_edu resume_edu then 0.5
      else 0)"

definition claimed_education_score :: "string list \<Rightarrow> string list \<Rightarrow> real" where
  "claimed_education_score job_education resume_education =
     (if job_education = [] then 1
      else if resume_education = [] then 0
      else min 1 (sum_list (map (\<lambda>job_edu. claimed_education_points (lower job_edu)
                                   (map lower resume_education)) job_education)
                  / real (length job_education)))"

section \<open>Similarity of two embeddings\<close>

text \<open>
  An embedding is a one-dimensional array of doubles; its entries are finite and are
  modelled as reals. The results of numpy's arithmetic are doubles too: they are rounded,
  they can overflow, underflow to zero or be nan. So the four operations the source calls
  are parameters of any behaviour, and their results are values of a type that has the
  infinities and nan. What the source itself does with those results, the guard for zero
  vectors and the two comparisons of the clamp, is written out.
\<close>

datatype error = ValueError | RuntimeError | LookupError

datatype float64 = Finite real | PosInf | NegInf | NaN

record numpy =
  np_dot :: "real list \<Rightarrow> real list \<Rightarrow> float64"
  np_norm :: "real list \<Rightarrow> float64"
  np_multiply :: "float64 \<Rightarrow> float64 \<Rightarrow> float64"
  np_divide :: "float64 \<Rightarrow> float64 \<Rightarrow> float64"

text \<open>\<^verbatim>\<open>x < y\<close> on doubles: false as soon as one of them is nan.\<close>

fun float_less :: "float64 \<Rightarrow> float64 \<Rightarrow> bool" where
  "float_less (Finite x) (Finite y) = (x < y)"
| "float_less (Finite x) PosInf = True"
| "float_less NegInf (Finite y) = True"
| "float_less NegInf PosInf = True"
| "float_less x y = False"

text \<open>
  \<^verbatim>\<open>min(a, b)\<close> and \<^verbatim>\<open>max(a, b)\<close> of Python: the second argument is returned only when
  it compares smaller, respectively greater, than the first.
\<close>

definition float_min :: "float64 \<Rightarrow> float64 \<Rightarrow> float64" where
  "float_min a b = (if float_less b a then b else a)"

definition float_max :: "float64 \<Rightarrow> float64 \<Rightarrow> float64" where
  "float_max a b = (if float_less a b then b else a)"

text \<open>\<^verbatim>\<open>np.all(embedding == 0)\<close>; it holds of the empty array.\<close>

definition all_zero :: "real list \<Rightarrow> bool" where
  "all_zero embedding = list_all (\<lambda>x. x = 0) embedding"

text \<open>
  \<^verbatim>\<open>calculate_similarity\<close>. The dot product of two arrays of different lengths raises
  ValueError; a division by zero does not raise, it gives an infinity or nan.
\<close>

definition calculate_similarity :: "numpy \<Rightarrow> real list \<Rightarrow> real list \<Rightarrow> error + float64" where
  "calculate_similarity np embedding1 embedding2 =
     (if all_zero embedding1 \<or> all_zero embedding2 then Inr (Finite 0)
      else if length embedding1 \<noteq> length embedding2 then Inl ValueError
      else let similarity = np_divide np (np_dot np embedding1 embedding2)
                              (np_multiply np (np_norm np embedding1) (np_norm np embedding2));
               similarity = float_max (Finite 0) (float_min (Finite 1) similarity)
           in Inr similarity)"

text \<open>
  The real number a finite double holds. The scores of the ranking are computed from the
  similarity, which is always finite (lemma \<open>similarity_range\<close>).
\<close>

fun float_value :: "float64 \<Rightarrow> real" where
  "float_value (Finite x) = x"

section \<open>Ranking\<close>

record entity_set =
  skills :: "string list"
  education :: "string list"
  experience :: "string list"

text \<open>
  The dictionary built for the job description, and the one built for each resume, which
  has a file name as well.
\<close>

record processed_doc =
  doc_text :: string
  processed_text :: string
  entities :: entity_set
  embedding :: "real list"

record resume = processed_doc +
  filename :: string

record ranked_resume = resume +
  match_score :: real
  skills_score :: real
  education_score :: real
  experience_score :: real
  matching_skills :: "string list"
  missing_skills :: "string list"

text \<open>The body of the loop of \<^verbatim>\<open>rank_resumes\<close>: the entry appended for one resume.\<close>

definition score_resume :: "numpy \<Rightarrow> processed_doc \<Rightarrow> resume \<Rightarrow> error + ranked_resume" where
  "score_resume np job_description resume =
     (case calculate_similarity np (embedding job_description) (embedding resume) of
        Inl e \<Rightarrow> Inl e
      | Inr similarity \<Rightarrow>
          (let similarity_score = float_value similarity;
               skills_sc = calculate_skills_match (skills (entities job_description))
                             (skills (entities resume));
               education_sc = calculate_education_match (education (entities job_description))
                                (education (entities resume));
               experience_sc = calculate_experience_match (experience (entities job_description))
                                 (experience (entities resume));
               overall_score = (similarity_score * 0.4 + skills_sc * 0.3
                                + education_sc * 0.15 + experience_sc * 0.15) * 100;
               matching = filter (\<lambda>skill. list_ex (\<lambda>job_skill.
                              py_in (lower job_skill) (lower skill) \<or> py_in (lower skill) (lower job_skill))
                              (skills (entities job_description)))
                            (skills (entities resume));
               missing = filter (\<lambda>skill. \<not> list_ex (\<lambda>resume_skill.
                              py_in (lower skill) (lower resume_skill) \<or> py_in (lower resume_skill) (lower skill))
                              (skills (entities resume)))
                            (skills (entities job_description))
           in Inr \<lparr>doc_text = doc_text resume,
                   processed_text = processed_text resume,
                   entities = entities resume,
                   embedding = embedding resume,
                   filename = filename resume,
                   match_score = overall_score,
                   skills_score = skills_sc * 100,
                   education_score = education_sc * 100,
                   experience_score = experience_sc * 100,
                   matching_skills = matching,
                   missing_skills = missing\<rparr>))"

text \<open>The loop: an error raised for one resume leaves the function.\<close>

fun rank_loop ::
  "numpy \<Rightarrow> processed_doc \<Rightarrow> resume list \<Rightarrow> ranked_resume list \<Rightarrow> error + ranked_resume list" where
  "rank_loop np job_description [] ranked_resumes = Inr ranked_resumes"
| "rank_loop np job_description (resume # rest) ranked_resumes =
     (case score_resume np job_description resume of
        Inl e \<Rightarrow> Inl e
      | Inr entry \<Rightarrow> rank_loop np job_description rest (ranked_resumes @ [entry]))"

text \<open>
  \<^verbatim>\<open>xs.sort(key=k, reverse=True)\<close>: the list is reversed, sorted by ascending key with a
  stable sort, and reversed again.
\<close>

definition sort_reverse :: "('a \<Rightarrow> real) \<Rightarrow> 'a list \<Rightarrow> 'a list" where
  "sort_reverse k xs = rev (sort_key k (rev xs))"

text \<open>
  The job description is \<open>None\<close> when the caller has none (an empty dictionary counts
  as none too).
\<close>

definition rank_resumes ::
  "numpy \<Rightarrow> processed_doc option \<Rightarrow> resume list \<Rightarrow> error + ranked_resume list" where
  "rank_resumes np job_description parsed_resumes =
     (case job_description of
        None \<Rightarrow> Inr []
      | Some job \<Rightarrow>
          if parsed_resumes = [] then Inr []
          else (case rank_loop np job parsed_resumes [] of
                  Inl e \<Rightarrow> Inl e
                | Inr ranked_resumes \<Rightarrow> Inr (sort_reverse match_score ranked_resumes)))"

section \<open>A job and resumes to run the ranking on\<close>

text \<open>
  Arithmetic without rounding, standing for numpy's where a concrete one is needed; on
  the vectors used below the doubles are exact as well. A division by zero gives nan or
  an infinity, as numpy's does. Products and quotients of infinities and nan, which these
  vectors never produce, are given as nan.
\<close>

fun exact_multiply :: "float64 \<Rightarrow> float64 \<Rightarrow> float64" where
  "exact_multiply (Finite x) (Finite y) = Finite (x * y)"
| "exact_multiply x y = NaN"

fun exact_divide :: "float64 \<Rightarrow> float64 \<Rightarrow> float64" where
  "exact_divide (Finite x) (Finite y) =
     (if y = 0 then (if x = 0 then NaN else if 0 < x then PosInf else NegInf)
      else Finite (x / y))"
| "exact_divide x y = NaN"

definition exact_numpy :: numpy where
  "exact_numpy =
     \<lparr>np_dot = (\<lambda>a b. Finite (sum_list (map (\<lambda>(x, y). x * y) (zip a b)))),
      np_norm = (\<lambda>a. Finite (sqrt (sum_list (map (\<lambda>x. x * x) a)))),
      np_multiply = exact_multiply,
      np_divide = exact_divide\<rparr>"

text \<open>
  The same arithmetic, except that the norm of every vector underflows to zero, as
  \<^verbatim>\<open>np.linalg.norm\<close> does on a vector whose entries are as small as 1e-200.
\<close>

definition underflow_numpy :: numpy where
  "underflow_numpy = exact_numpy\<lparr>np_norm := (\<lambda>a. Finite 0)\<rparr>"

definition example_job :: processed_doc where
  "example_job = \<lparr>doc_text = ''Python and SQL developer, 5 years, bachelor in computer science'',
     processed_text = ''python sql developer 5 year bachelor computer science'',
     entities = \<lparr>skills = [''python'', ''sql''],
                 education = [''bachelor in computer science''],
                 experience = [''5 years of experience'']\<rparr>,
     embedding = [1, 0]\<rparr>"

definition example_resume :: "string \<Rightarrow> string \<Rightarrow> real list \<Rightarrow> resume" where
  "example_resume name years emb = \<lparr>doc_text = ''Python programming, bachelor in engineering'',
     processed_text = ''python programming bachelor engineering'',
     entities = \<lparr>skills = [''python programming''],
                 education = [''bachelor in engineering''],
                 experience = [years]\<rparr>,
     embedding = emb, filename = name\<rparr>"

text \<open>The entry the ranking builds for such a resume.\<close>

definition example_entry :: "string \<Rightarrow> string \<Rightarrow> real \<Rightarrow> real \<Rightarrow> ranked_resume" where
  "example_entry name years overall exp_score =
     \<lparr>doc_text = ''Python programming, bachelor in engineering'',
      processed_text = ''python programming bachelor engineering'',
      entities = \<lparr>skills = [''python programming''],
                  education = [''bachelor in engineering''],
                  experience = [years]\<rparr>,
      embedding = [1, 0], filename = name,
      match_score = overall, skills_score = 50, education_score = 50,
      experience_score = exp_score,
      matching_skills = [''python programming''], missing_skills = [''sql'']\<rparr>"

section \<open>Embeddings\<close>

text \<open>
  The module keeps one global, \<^verbatim>\<open>vectorizer\<close>, which is \<open>None\<close> until the model is
  loaded. The TF-IDF vectorizer itself is scikit-learn's: what matters here of the object
  is whether it has the attribute \<^verbatim>\<open>vocabulary_\<close> (the field \<open>vocabulary\<close>, \<open>None\<close> when the
  attribute is absent), and its two methods are taken as parameters. A call of
  \<^verbatim>\<open>fit_transform\<close> either raises and leaves the object without a vocabulary, or learns a
  vocabulary and returns the row of the one document; \<^verbatim>\<open>transform\<close> does not change the
  object.
\<close>

record 'v tfidf =
  max_features :: nat
  vocabulary :: "'v option"

record 'v sklearn =
  fit_transform :: "'v tfidf \<Rightarrow> string \<Rightarrow> error + ('v \<times> real list)"
  transform :: "'v tfidf \<Rightarrow> string \<Rightarrow> error + real list"

text \<open>
  The constructor only stores its parameters, so it always returns an object; the handler
  of \<^verbatim>\<open>load_model\<close> is kept as the source has it.
\<close>

definition TfidfVectorizer :: "nat \<Rightarrow> error + 'v tfidf" where
  "TfidfVectorizer n = Inr \<lparr>max_features = n, vocabulary = None\<rparr>"

definition load_model :: "error + 'v tfidf" where
  "load_model = (case TfidfVectorizer 384 of Inl e \<Rightarrow> Inl RuntimeError | Inr v \<Rightarrow> Inr v)"

definition np_zeros :: "nat \<Rightarrow> real list" where
  "np_zeros n = replicate n 0"

text \<open>
  The padding and truncation applied to the row.
\<close>

definition fix_size :: "real list \<Rightarrow> real list" where
  "fix_size emb =
     (if length emb < 384 then emb @ replicate (384 - length emb) 0
      else if length emb > 384 then take 384 emb
      else emb)"

text \<open>
  \<^verbatim>\<open>get_embedding\<close>: the new value of the global and the embedding, or the error raised.
\<close>

definition get_embedding ::
  "'v sklearn \<Rightarrow> 'v tfidf option \<Rightarrow> string \<Rightarrow> error + ('v tfidf option \<times> real list)" where
  "get_embedding lib vectorizer text =
     (case (case vectorizer of None \<Rightarrow> load_model | Some v \<Rightarrow> Inr v) of
        Inl e \<Rightarrow> Inl e
      | Inr v \<Rightarrow>
          if text = [] then Inr (Some v, np_zeros 384)
          else (case vocabulary v of
                  None \<Rightarrow>
                    (case fit_transform lib v text of
                       Inl e \<Rightarrow> Inr (Some v, np_zeros 384)
                     | Inr (vocab, row) \<Rightarrow>
                         Inr (Some (v\<lparr>vocabulary := Some vocab\<rparr>), fix_size row))
                | Some vocab \<Rightarrow>
                    (case transform lib v text of
                       Inl e \<Rightarrow> Inr (Some v, np_zeros 384)
                     | Inr row \<Rightarrow> Inr (Some v, fix_size row))))"

text \<open>
  The object the global holds once the first lines of \<^verbatim>\<open>get_embedding\<close> have run, and the
  vocabulary it has, if any.
\<close>

definition the_vectorizer :: "'v tfidf option \<Rightarrow> 'v tfidf" where
  "the_vectorizer vectorizer =
     (case vectorizer of None \<Rightarrow> \<lparr>max_features = 384, vocabulary = None\<rparr> | Some v \<Rightarrow> v)"

definition fitted_vocabulary :: "'v tfidf option \<Rightarrow> 'v option" where
  "fitted_vocabulary vectorizer = (case vectorizer of None \<Rightarrow> None | Some v \<Rightarrow> vocabulary v)"

text \<open>
  The calls of one session, in order: the job description first, then the resumes.
\<close>

fun encode_session ::
  "'v sklearn \<Rightarrow> 'v tfidf option \<Rightarrow> string list \<Rightarrow> error + ('v tfidf option \<times> real list list)" where
  "encode_session lib vectorizer [] = Inr (vectorizer, [])"
| "encode_session lib vectorizer (text # rest) =
     (case get_embedding lib vectorizer text of
        Inl e \<Rightarrow> Inl e
      | Inr (vectorizer', emb) \<Rightarrow>
          (case encode_session lib vectorizer' rest of
             Inl e \<Rightarrow> Inl e
           | Inr (vectorizer'', embs) \<Rightarrow> Inr (vectorizer'', emb # embs)))"

text \<open>
  A text fits when it is not empty and \<^verbatim>\<open>fit_transform\<close> does not raise on it.
\<close>

definition fits :: "'v sklearn \<Rightarrow> 'v tfidf \<Rightarrow> string \<Rightarrow> bool" where
  "fits lib v text = (text \<noteq> [] \<and> \<not> isl (fit_transform lib v text))"

text \<open>
  The embedding \<^verbatim>\<open>get_embedding\<close> returns when the vectorizer has a vocabulary: the zero
  vector for the empty text, and otherwise the branch of the source that calls
  \<^verbatim>\<open>transform\<close>, with its handler.
\<close>

definition encode_with_vocabulary :: "'v sklearn \<Rightarrow> 'v tfidf \<Rightarrow> string \<Rightarrow> real list" where
  "encode_with_vocabulary lib v text =
     (if text = [] then np_zeros 384
      else (case transform lib v text of Inl e \<Rightarrow> np_zeros 384 | Inr row \<Rightarrow> fix_size row))"

section \<open>A vectorizer to run the embedding on\<close>

text \<open>
  \<^verbatim>\<open>RegexpTokenizer(r'\w+')\<close>: the maximal runs of word characters, on ASCII text.
\<close>

definition is_word_char :: "char \<Rightarrow> bool" where
  "is_word_char c = (is_digit c \<or> is_upper c \<or> (97 \<le> (of_char c :: nat) \<and> (of_char c :: nat) \<le> 122)
                     \<or> c = CHR ''_'')"

fun word_runs :: "string \<Rightarrow> string \<Rightarrow> string list" where
  "word_runs run [] = (if run = [] then [] else [run])"
| "word_runs run (c # cs) =
     (if is_word_char c then word_runs (run @ [c]) cs
      else if run = [] then word_runs [] cs
      else run # word_runs [] cs)"

definition regexp_tokenize :: "string \<Rightarrow> string list" where
  "regexp_tokenize s = word_runs [] s"

text \<open>
  A plain term-count vectorizer, standing for scikit-learn's where a concrete one is
  needed: the vocabulary is the distinct tokens of two or more characters in order of
  appearance, fitting raises when there is none, and a row holds the counts of the
  vocabulary's terms.
\<close>

definition count_row :: "string list \<Rightarrow> string \<Rightarrow> real list" where
  "count_row vocab text =
     map (\<lambda>term. real (count_list (regexp_tokenize text) term)) vocab"

definition count_vectorizer :: "(string list) sklearn" where
  "count_vectorizer =
     \<lparr>fit_transform = (\<lambda>v text.
         let vocab = remdups (filter (\<lambda>w. 2 \<le> length w) (regexp_tokenize text))
         in if vocab = [] then Inl ValueError else Inr (vocab, count_row vocab text)),
      transform = (\<lambda>v text.
         case vocabulary v of None \<Rightarrow> Inl ValueError | Some vocab \<Rightarrow> Inr (count_row vocab text))\<rparr>"

section \<open>Text normalization\<close>



















section \<open>A tokenizer, stop words and a lemmatizer to run the normalization on\<close>



section \<open>Facts about strings\<close>

lemma startswith_iff: "startswith s p \<longleftrightarrow> (\<exists>r. s = p @ r)"
  by (induction s p rule: startswith.induct) auto

lemma py_in_iff: "py_in a b \<longleftrightarrow> (\<exists>p s. b = p @ a @ s)"
proof (induction b)
  case Nil
  then show ?case by simp
next
  case (Cons c cs)
  show ?case
  proof
    assume "py_in a (c # cs)"
    then consider "startswith (c # cs) a" | "py_in a cs" by auto
    then show "\<exists>p s. c # cs = p @ a @ s"
    proof cases
      case 1
      then obtain r where "c # cs = a @ r" by (auto simp: startswith_iff)
      then have "c # cs = [] @ a @ r" by simp
      then show ?thesis by blast
    next
      case 2
      then obtain p s where "cs = p @ a @ s" using Cons.IH by blast
      then have "c # cs = (c # p) @ a @ s" by simp
      then show ?thesis by blast
    qed
  next
    assume "\<exists>p s. c # cs = p @ a @ s"
    then obtain p s where ps: "c # cs = p @ a @ s" by blast
    show "py_in a (c # cs)"
    proof (cases p)
      case Nil
      with ps have "startswith (c # cs) a" by (auto simp: startswith_iff)
      then show ?thesis by simp
    next
      case (Cons d p')
      with ps have "cs = p' @ a @ s" by simp
      then have "py_in a cs" using Cons.IH by blast
      then show ?thesis by simp
    qed
  qed
qed

lemma count_matching_skills_eq:
  "count_matching_skills js rs m =
     m + length (filter (\<lambda>j. \<exists>r \<in> set rs. partial_match j r) js)"
  by (induction js arbitrary: m) (auto simp: list_ex_iff partial_match_def)

section \<open>Skills score\<close>

text \<open>
  C5. The skills score is 0 when either list is empty; otherwise it is the number of job
  skills that some resume skill matches, after lower-casing both, by containment in either
  direction, divided by the number of job skills. It lies between 0 and 1, and the job
  skills python, sql against the resume skill python programming give 0.5.
\<close>

theorem skills_score_fraction:
  "calculate_skills_match job_skills resume_skills =
     (if job_skills = [] \<or> resume_skills = [] then 0
      else real (length (filter (\<lambda>j. \<exists>r \<in> set resume_skills.
                    (\<exists>p s. lower r = p @ lower j @ s) \<or> (\<exists>p s. lower j = p @ lower r @ s))
                  job_skills))
           / real (length job_skills))
   \<and> 0 \<le> calculate_skills_match job_skills resume_skills
   \<and> calculate_skills_match job_skills resume_skills \<le> 1
   \<and> calculate_skills_match [''python'', ''sql''] [''python programming''] = 0.5"
proof -
  let ?P = "\<lambda>j. \<exists>r \<in> set resume_skills.
              (\<exists>p s. lower r = p @ lower j @ s) \<or> (\<exists>p s. lower j = p @ lower r @ s)"
  have cnt: "count_matching_skills (map lower job_skills) (map lower resume_skills) 0 =
             length (filter ?P job_skills)"
    by (simp add: count_matching_skills_eq filter_map partial_match_def py_in_iff comp_def)
  have eq: "calculate_skills_match job_skills resume_skills =
     (if job_skills = [] \<or> resume_skills = [] then 0
      else real (length (filter ?P job_skills)) / real (length job_skills))"
    by (simp add: calculate_skills_match_def Let_def cnt)
  have le: "length (filter ?P job_skills) \<le> length job_skills" by simp
  have lo: "0 \<le> calculate_skills_match job_skills resume_skills"
    by (simp add: eq)
  have hi: "calculate_skills_match job_skills resume_skills \<le> 1"
    unfolding eq using le by (auto simp: divide_le_eq_1)
  have ex: "calculate_skills_match [''python'', ''sql''] [''python programming''] = 0.5"
    by (simp add: calculate_skills_match_def Let_def lower_def lower_char_def is_upper_def)
  from eq lo hi ex show ?thesis by blast
qed

section \<open>Similarity is safe on zero vectors and bounded\<close>




lemma similarity_nan:
  assumes "\<not> all_zero a" "\<not> all_zero b" "length a = length b"
    and "np_divide np (np_dot np a b) (np_multiply np (np_norm np a) (np_norm np b)) = NaN"
  shows "calculate_similarity np a b = Inr (Finite 1)"
  using assms by (simp add: calculate_similarity_def Let_def float_min_def float_max_def)


lemma underflow_quotient:
  "np_divide underflow_numpy (np_dot underflow_numpy [1, 0] [0, 1])
     (np_multiply underflow_numpy (np_norm underflow_numpy [1, 0]) (np_norm underflow_numpy [0, 1]))
   = NaN"
  by (simp add: underflow_numpy_def exact_numpy_def)


section \<open>Education score\<close>

lemma education_resume_loop_eq:
  "education_resume_loop j rs m = m + education_points j rs"
  by (induction rs arbitrary: m) (auto simp: education_points_def partial_match_def)

lemma education_job_loop_eq:
  "education_job_loop js rs m = m + sum_list (map (\<lambda>j. education_points j rs) js)"
  by (induction js arbitrary: m) (auto simp: education_resume_loop_eq)



text \<open>What the loops compute, and that the result is a score between 0 and 1.\<close>

lemma education_score_loops:
  "calculate_education_match job_education resume_education =
     (if job_education = [] then 1
      else if resume_education = [] then 0
      else min 1 (sum_list (map (\<lambda>job_edu. education_points (lower job_edu)
                                   (map lower resume_education)) job_education)
                  / real (length job_education)))"
  by (simp add: calculate_education_match_def Let_def education_job_loop_eq comp_def)

text \<open>
  C3. The claim gives a job phrase one point when some resume phrase matches it by
  containment and half a point when some resume phrase only shares a degree keyword with
  it, hence never more than one point. The code does not do that: the \<^verbatim>\<open>break\<close> after
  \<^verbatim>\<open>matches += 0.5\<close> leaves the keyword loop only, so the loop over the resume phrases
  goes on and half points add up, while the branch for a containment and the loops of the
  experience score stop at the first match. With the job phrases bachelor in computer
  science and phd and the resume phrases bachelor in engineering and bachelor in
  mathematics the code returns 0.5 where the claim gives 0.25; against three resume
  phrases with the keyword one job phrase collects 1.5 points; and the score follows the
  order of the resume phrases, 0.75 or 0.5 for the same two phrases, where the claim gives
  0.5 for both orders.
\<close>

theorem education_score_overcounts:
  "calculate_education_match [''bachelor in computer science'', ''phd'']
       [''bachelor in engineering'', ''bachelor in mathematics''] = 0.5
   \<and> claimed_education_score [''bachelor in computer science'', ''phd'']
       [''bachelor in engineering'', ''bachelor in mathematics''] = 0.25
   \<and> education_job_loop [''bachelor in computer science'']
       [''bachelor in engineering'', ''bachelor in mathematics'', ''bachelor in physics''] 0 = 1.5
   \<and> calculate_education_match [''bachelor in computer science'', ''phd'']
       [''bachelor in engineering'', ''bachelor in computer science''] = 0.75
   \<and> calculate_education_match [''bachelor in computer science'', ''phd'']
       [''bachelor in computer science'', ''bachelor in engineering''] = 0.5
   \<and> claimed_education_score [''bachelor in computer science'', ''phd'']
       [''bachelor in engineering'', ''bachelor in computer science''] = 0.5
   \<and> claimed_education_score [''bachelor in computer science'', ''phd'']
       [''bachelor in computer science'', ''bachelor in engineering''] = 0.5"
  by (simp add: calculate_education_match_def claimed_education_score_def
        claimed_education_points_def partial_match_def Let_def lower_def lower_char_def
        is_upper_def keyword_match_def education_keywords_def)

section \<open>Experience score\<close>






section \<open>Ranking: one entry per resume\<close>





lemma rank_loop_Inr:
  "rank_loop np job rs acc = Inr out \<Longrightarrow>
   map Inr out = map Inr acc @ map (score_resume np job) rs"
proof (induction rs arbitrary: acc)
  case Nil
  then show ?case by simp
next
  case (Cons r rs)
  then show ?case by (auto split: sum.splits)
qed




lemma sort_reverse_stable:
  "filter (\<lambda>x. k x = v) (sort_reverse k xs) = filter (\<lambda>x. k x = v) xs"
  by (simp add: sort_reverse_def rev_filter [symmetric] sort_key_stable)

lemma rank_resumes_Some:
  assumes "rank_resumes np (Some job) resumes = Inr ranked"
  shows "\<exists>entries. map Inr entries = map (score_resume np job) resumes
           \<and> ranked = sort_reverse match_score entries"
proof (cases "resumes = []")
  case True
  with assms have "ranked = []" by (simp add: rank_resumes_def)
  with True have "map Inr ([] :: ranked_resume list) = map (score_resume np job) resumes
       \<and> ranked = sort_reverse match_score []"
    by (simp add: sort_reverse_def)
  then show ?thesis by blast
next
  case False
  with assms obtain entries where e: "rank_loop np job resumes [] = Inr entries"
      and r: "ranked = sort_reverse match_score entries"
    by (auto simp: rank_resumes_def split: sum.splits)
  from rank_loop_Inr [OF e] r show ?thesis by auto
qed





section \<open>The ranking of three resumes, computed\<close>

lemma example_similarity: "calculate_similarity exact_numpy [1, 0] [1, 0] = Inr (Finite 1)"
  by (simp add: calculate_similarity_def all_zero_def exact_numpy_def Let_def
        float_min_def float_max_def)


lemma example_skills: "calculate_skills_match [''python'', ''sql''] [''python programming''] = 1 / 2"
  by (simp add: calculate_skills_match_def Let_def lower_def lower_char_def is_upper_def)

lemma example_education:
  "calculate_education_match [''bachelor in computer science''] [''bachelor in engineering''] = 1 / 2"
  by (simp add: calculate_education_match_def Let_def lower_def lower_char_def is_upper_def
        keyword_match_def education_keywords_def)

lemma example_experience_3:
  "calculate_experience_match [''5 years of experience''] [''3 years of experience''] = 3 / 5"
  by (simp add: calculate_experience_match_def collect_years_def lower_def lower_char_def
          is_upper_def match_years_def is_digit_def is_space_def int_of_digits_def
          year_units_def Let_def)

lemma example_experience_6:
  "calculate_experience_match [''5 years of experience''] [''6 years of experience''] = 1"
  by (simp add: calculate_experience_match_def collect_years_def lower_def lower_char_def
          is_upper_def match_years_def is_digit_def is_space_def int_of_digits_def
          year_units_def Let_def)

lemma example_score_3:
  "score_resume exact_numpy example_job (example_resume name ''3 years of experience'' [1, 0]) =
     Inr (example_entry name ''3 years of experience'' 71.5 60)"
  by (simp add: score_resume_def example_job_def example_resume_def example_entry_def Let_def
        example_similarity example_skills example_education example_experience_3
        lower_def lower_char_def is_upper_def)

lemma example_score_6:
  "score_resume exact_numpy example_job (example_resume name ''6 years of experience'' [1, 0]) =
     Inr (example_entry name ''6 years of experience'' 77.5 100)"
  by (simp add: score_resume_def example_job_def example_resume_def example_entry_def Let_def
        example_similarity example_skills example_education example_experience_6
        lower_def lower_char_def is_upper_def)


lemma example_ranking:
  "rank_resumes exact_numpy (Some example_job)
     [example_resume ''a.pdf'' ''3 years of experience'' [1, 0],
      example_resume ''c.pdf'' ''6 years of experience'' [1, 0],
      example_resume ''b.pdf'' ''3 years of experience'' [1, 0]] =
   Inr [example_entry ''c.pdf'' ''6 years of experience'' 77.5 100,
        example_entry ''a.pdf'' ''3 years of experience'' 71.5 60,
        example_entry ''b.pdf'' ''3 years of experience'' 71.5 60]"
proof -
  have ms: "match_score (example_entry n y ov ex) = ov" for n y ov ex
    by (simp add: example_entry_def)
  have nonempty: "[example_resume ''a.pdf'' ''3 years of experience'' [1, 0],
      example_resume ''c.pdf'' ''6 years of experience'' [1, 0],
      example_resume ''b.pdf'' ''3 years of experience'' [1, 0]] \<noteq> []" by simp
  show ?thesis
    unfolding rank_resumes_def
    by (simp only: option.case if_False nonempty rank_loop.simps example_score_3
          example_score_6 sum.case append.simps sort_reverse_def rev.simps
          sort_key_simps insort_key.simps ms)
       (simp add: ms)
qed


section \<open>Overall score\<close>




section \<open>The contract of the ranking\<close>



section \<open>Ties keep the order of the input\<close>

text \<open>
  C10. The ranking is stable: the entries with any one overall score stand in the ranking
  in the order in which their resumes were given.
\<close>

theorem ranking_is_stable:
  "rank_resumes np (Some job) resumes = Inr ranked \<Longrightarrow>
   \<exists>entries. map Inr entries = map (score_resume np job) resumes
     \<and> (\<forall>score. filter (\<lambda>entry. match_score entry = score) ranked
                 = filter (\<lambda>entry. match_score entry = score) entries)"
proof -
  assume "rank_resumes np (Some job) resumes = Inr ranked"
  from rank_resumes_Some [OF this] obtain entries where
    e: "map Inr entries = map (score_resume np job) resumes"
    and r: "ranked = sort_reverse match_score entries" by blast
  have "\<forall>score. filter (\<lambda>entry. match_score entry = score) ranked
                 = filter (\<lambda>entry. match_score entry = score) entries"
    unfolding r by (simp add: sort_reverse_stable)
  with e show ?thesis by blast
qed

theorem ranking_is_stable_witness:
  "map filename (filter (\<lambda>entry. match_score entry = 71.5)
      (projr (rank_resumes exact_numpy (Some example_job)
          [example_resume ''a.pdf'' ''3 years of experience'' [1, 0],
           example_resume ''c.pdf'' ''6 years of experience'' [1, 0],
           example_resume ''b.pdf'' ''3 years of experience'' [1, 0]])))
   = [''a.pdf'', ''b.pdf'']"
proof -
  let ?rs = "[example_resume ''a.pdf'' ''3 years of experience'' [1, 0],
           example_resume ''c.pdf'' ''6 years of experience'' [1, 0],
           example_resume ''b.pdf'' ''3 years of experience'' [1, 0]]"
  let ?ranked = "[example_entry ''c.pdf'' ''6 years of experience'' 77.5 100,
                example_entry ''a.pdf'' ''3 years of experience'' 71.5 60,
                example_entry ''b.pdf'' ''3 years of experience'' 71.5 60]"
  from ranking_is_stable [OF example_ranking] obtain entries where
    e: "map Inr entries = map (score_resume exact_numpy example_job) ?rs"
    and fa: "\<forall>score. filter (\<lambda>entry. match_score entry = score) ?ranked
            = filter (\<lambda>entry. match_score entry = score) entries"
    by blast
  from fa have f: "filter (\<lambda>entry. match_score entry = 71.5) ?ranked
            = filter (\<lambda>entry. match_score entry = 71.5) entries"
    by (rule spec)
  have "entries = map projr (map (Inr :: ranked_resume \<Rightarrow> error + ranked_resume) entries)"
    by (simp add: comp_def)
  also have "\<dots> = map projr (map (score_resume exact_numpy example_job) ?rs)" by (simp only: e)
  also have "\<dots> = [example_entry ''a.pdf'' ''3 years of experience'' 71.5 60,
        example_entry ''c.pdf'' ''6 years of experience'' 77.5 100,
        example_entry ''b.pdf'' ''3 years of experience'' 71.5 60]"
    by (simp add: example_score_3 example_score_6)
  finally have en: "entries = [example_entry ''a.pdf'' ''3 years of experience'' 71.5 60,
        example_entry ''c.pdf'' ''6 years of experience'' 77.5 100,
        example_entry ''b.pdf'' ''3 years of experience'' 71.5 60]" .
  have ms: "match_score (example_entry n y ov ex) = ov" for n y ov ex
    by (simp add: example_entry_def)
  have fn: "filename (example_entry n y ov ex) = n" for n y ov ex
    by (simp add: example_entry_def)
  have "map filename (filter (\<lambda>entry. match_score entry = 71.5) ?ranked) = [''a.pdf'', ''b.pdf'']"
    unfolding f en by (simp add: ms fn)
  then show ?thesis by (simp only: example_ranking sum.sel)
qed

section \<open>Encoding never raises\<close>

lemma length_fix_size: "length (fix_size e) = 384"
  by (simp add: fix_size_def)

lemma get_embedding_cases:
  "get_embedding lib vectorizer text =
     (let v = the_vectorizer vectorizer in
      if text = [] then Inr (Some v, np_zeros 384)
      else (case vocabulary v of
                  None \<Rightarrow>
                    (case fit_transform lib v text of
                       Inl e \<Rightarrow> Inr (Some v, np_zeros 384)
                     | Inr (vocab, row) \<Rightarrow>
                         Inr (Some (v\<lparr>vocabulary := Some vocab\<rparr>), fix_size row))
                | Some vocab \<Rightarrow>
                    (case transform lib v text of
                       Inl e \<Rightarrow> Inr (Some v, np_zeros 384)
                     | Inr row \<Rightarrow> Inr (Some v, fix_size row))))"
  by (simp add: get_embedding_def the_vectorizer_def load_model_def TfidfVectorizer_def Let_def
        split: option.splits)

lemma count_fit_short:
  "fit_transform count_vectorizer v ''a b'' = Inl ValueError"
  by (simp add: count_vectorizer_def regexp_tokenize_def is_word_char_def is_digit_def
        is_upper_def Let_def)

lemma count_fit_python:
  "fit_transform count_vectorizer v ''python developer'' =
     Inr ([''python'', ''developer''], [1, 1])"
  by (simp add: count_vectorizer_def regexp_tokenize_def is_word_char_def is_digit_def
        is_upper_def Let_def count_row_def)

lemma count_transform_java:
  "vocabulary v = Some [''python'', ''developer''] \<Longrightarrow>
   transform count_vectorizer v ''java developer'' = Inr [0, 1]"
  by (simp add: count_vectorizer_def regexp_tokenize_def is_word_char_def is_digit_def
        is_upper_def Let_def count_row_def)

text \<open>
  C7. For every state of the vectorizer and every text, the encoding returns a vector of
  exactly 384 dimensions and raises nothing; the empty text gives the zero vector of
  dimension 384; and when fitting or transforming raises inside, the zero vector of
  dimension 384 is returned.
\<close>

theorem encode_never_raises:
  "(\<exists>vectorizer' emb. get_embedding lib vectorizer text = Inr (vectorizer', emb)
        \<and> length emb = 384)
   \<and> (\<exists>vectorizer'. get_embedding lib vectorizer [] = Inr (vectorizer', replicate 384 0))
   \<and> (text \<noteq> [] \<and> vocabulary (the_vectorizer vectorizer) = None
        \<and> fit_transform lib (the_vectorizer vectorizer) text = Inl e
      \<longrightarrow> get_embedding lib vectorizer text = Inr (Some (the_vectorizer vectorizer), replicate 384 0))
   \<and> (text \<noteq> [] \<and> vocabulary (the_vectorizer vectorizer) \<noteq> None
        \<and> transform lib (the_vectorizer vectorizer) text = Inl e
      \<longrightarrow> get_embedding lib vectorizer text = Inr (Some (the_vectorizer vectorizer), replicate 384 0))"
proof -
  have a: "\<exists>vectorizer' emb. get_embedding lib vectorizer text = Inr (vectorizer', emb)
        \<and> length emb = 384"
    by (auto simp: get_embedding_cases Let_def np_zeros_def length_fix_size
          split: option.splits sum.splits)
  have b: "\<exists>vectorizer'. get_embedding lib vectorizer [] = Inr (vectorizer', replicate 384 0)"
    by (simp add: get_embedding_cases Let_def np_zeros_def)
  have c: "text \<noteq> [] \<and> vocabulary (the_vectorizer vectorizer) = None
        \<and> fit_transform lib (the_vectorizer vectorizer) text = Inl e
      \<longrightarrow> get_embedding lib vectorizer text = Inr (Some (the_vectorizer vectorizer), replicate 384 0)"
    by (simp add: get_embedding_cases Let_def np_zeros_def)
  have d: "text \<noteq> [] \<and> vocabulary (the_vectorizer vectorizer) \<noteq> None
        \<and> transform lib (the_vectorizer vectorizer) text = Inl e
      \<longrightarrow> get_embedding lib vectorizer text = Inr (Some (the_vectorizer vectorizer), replicate 384 0)"
    by (auto simp: get_embedding_cases Let_def np_zeros_def)
  from a b c d show ?thesis by blast
qed

theorem encode_never_raises_witness:
  "fit_transform count_vectorizer (the_vectorizer None) ''a b'' = Inl ValueError
   \<and> get_embedding count_vectorizer None ''a b'' = Inr (Some (the_vectorizer None), replicate 384 0)
   \<and> length (snd (projr (get_embedding count_vectorizer None ''python developer''))) = 384"
proof -
  have v: "vocabulary (the_vectorizer (None :: (string list) tfidf option)) = None"
    by (simp add: the_vectorizer_def)
  have ne: "''a b'' \<noteq> []" by simp
  note t1 = encode_never_raises [of count_vectorizer None "''a b''" ValueError]
  note t2 = encode_never_raises [of count_vectorizer None "''python developer''" ValueError]
  from t1 v ne count_fit_short [of "the_vectorizer None"]
  have a: "get_embedding count_vectorizer None ''a b'' = Inr (Some (the_vectorizer None), replicate 384 0)"
    by blast
  from t2 obtain vectorizer' emb where
    "get_embedding count_vectorizer None ''python developer'' = Inr (vectorizer', emb)"
    "length emb = 384" by blast
  then have b: "length (snd (projr (get_embedding count_vectorizer None ''python developer''))) = 384"
    by simp
  from count_fit_short [of "the_vectorizer None"] a b show ?thesis by (intro conjI)
qed

section \<open>When the vocabulary is fitted\<close>

lemma the_vectorizer_Some [simp]: "the_vectorizer (Some v) = v"
  by (simp add: the_vectorizer_def)

lemma get_embedding_fitted:
  assumes "fitted_vocabulary vectorizer = Some vocab"
  shows "get_embedding lib vectorizer text =
           Inr (vectorizer,
                if text = [] then np_zeros 384
                else (case transform lib (the_vectorizer vectorizer) text of
                        Inl e \<Rightarrow> np_zeros 384 | Inr row \<Rightarrow> fix_size row))"
proof -
  from assms obtain v where v: "vectorizer = Some v" "vocabulary v = Some vocab"
    by (auto simp: fitted_vocabulary_def split: option.splits)
  then show ?thesis
    by (simp add: get_embedding_cases Let_def split: sum.splits)
qed

lemma get_embedding_unfitted:
  assumes "fitted_vocabulary vectorizer = None"
  shows "get_embedding lib vectorizer text =
           (if text = [] then Inr (Some (the_vectorizer vectorizer), np_zeros 384)
            else (case fit_transform lib (the_vectorizer vectorizer) text of
                    Inl e \<Rightarrow> Inr (Some (the_vectorizer vectorizer), np_zeros 384)
                  | Inr (vocab, row) \<Rightarrow>
                      Inr (Some ((the_vectorizer vectorizer)\<lparr>vocabulary := Some vocab\<rparr>),
                           fix_size row)))"
proof -
  from assms have "vocabulary (the_vectorizer vectorizer) = None"
    by (auto simp: fitted_vocabulary_def the_vectorizer_def split: option.splits)
  then show ?thesis
    by (simp add: get_embedding_cases Let_def)
qed

lemma encode_session_with_vocabulary:
  "fitted_vocabulary vectorizer = Some vocab \<Longrightarrow>
   encode_session lib vectorizer texts =
     Inr (vectorizer, map (encode_with_vocabulary lib (the_vectorizer vectorizer)) texts)"
  by (induction texts) (auto simp: get_embedding_fitted encode_with_vocabulary_def)

lemma encode_session_without_vocabulary:
  "fitted_vocabulary vectorizer = None \<Longrightarrow>
   \<exists>vectorizer'. encode_session lib vectorizer texts =
       Inr (vectorizer',
            map (\<lambda>t. np_zeros 384) (takeWhile (\<lambda>t. \<not> fits lib (the_vectorizer vectorizer) t) texts)
            @ (case dropWhile (\<lambda>t. \<not> fits lib (the_vectorizer vectorizer) t) texts of
                 [] \<Rightarrow> []
               | t # later \<Rightarrow>
                   fix_size (snd (projr (fit_transform lib (the_vectorizer vectorizer) t)))
                   # map (encode_with_vocabulary lib
                            ((the_vectorizer vectorizer)
                               \<lparr>vocabulary := Some (fst (projr (fit_transform lib (the_vectorizer vectorizer) t)))\<rparr>))
                       later))
     \<and> fitted_vocabulary vectorizer' =
         (case dropWhile (\<lambda>t. \<not> fits lib (the_vectorizer vectorizer) t) texts of
            [] \<Rightarrow> None
          | t # later \<Rightarrow> Some (fst (projr (fit_transform lib (the_vectorizer vectorizer) t))))"
proof (induction texts arbitrary: vectorizer)
  case Nil
  then show ?case by simp
next
  case (Cons t rest)
  let ?v0 = "the_vectorizer vectorizer"
  show ?case
  proof (cases "fits lib ?v0 t")
    case True
    then obtain vocab row where fr: "fit_transform lib ?v0 t = Inr (vocab, row)"
      and ne: "t \<noteq> []"
      by (cases "fit_transform lib ?v0 t") (auto simp: fits_def)
    let ?v' = "Some (?v0\<lparr>vocabulary := Some vocab\<rparr>)"
    have g: "get_embedding lib vectorizer t = Inr (?v', fix_size row)"
      using Cons.prems fr ne by (simp add: get_embedding_unfitted)
    have fv: "fitted_vocabulary ?v' = Some vocab" by (simp add: fitted_vocabulary_def)
    have r: "encode_session lib ?v' rest =
               Inr (?v', map (encode_with_vocabulary lib (?v0\<lparr>vocabulary := Some vocab\<rparr>)) rest)"
      using encode_session_with_vocabulary [OF fv, of lib rest] by simp
    from g r True fr fv show ?thesis by simp
  next
    case False
    let ?v' = "Some ?v0"
    have g: "get_embedding lib vectorizer t = Inr (?v', np_zeros 384)"
      using Cons.prems False
      by (auto simp: get_embedding_unfitted fits_def split: sum.splits)
    have u: "fitted_vocabulary ?v' = None"
      using Cons.prems
      by (auto simp: fitted_vocabulary_def the_vectorizer_def split: option.splits)
    have tv: "the_vectorizer ?v' = ?v0" by simp
    from Cons.IH [OF u, unfolded tv] obtain vectorizer' where
      "encode_session lib ?v' rest =
       Inr (vectorizer',
            map (\<lambda>t. np_zeros 384) (takeWhile (\<lambda>t. \<not> fits lib ?v0 t) rest)
            @ (case dropWhile (\<lambda>t. \<not> fits lib ?v0 t) rest of
                 [] \<Rightarrow> []
               | t # later \<Rightarrow>
                   fix_size (snd (projr (fit_transform lib ?v0 t)))
                   # map (encode_with_vocabulary lib
                            (?v0\<lparr>vocabulary := Some (fst (projr (fit_transform lib ?v0 t)))\<rparr>))
                       later))"
      "fitted_vocabulary vectorizer' =
         (case dropWhile (\<lambda>t. \<not> fits lib ?v0 t) rest of
            [] \<Rightarrow> None
          | t # later \<Rightarrow> Some (fst (projr (fit_transform lib ?v0 t))))"
      by blast
    with g False show ?thesis by simp
  qed
qed

text \<open>
  C8, as the claim states it, fails: the first text encoded need not fit the vocabulary.
  An empty first text returns before the vectorizer is touched, so after it the vectorizer
  has no vocabulary, and the second text of the session is the one that fits it.
\<close>

theorem first_encode_need_not_fit:
  "fitted_vocabulary (fst (projr (get_embedding count_vectorizer None []))) = None
   \<and> fitted_vocabulary (fst (projr (encode_session count_vectorizer None
         [[], ''python developer'']))) = Some [''python'', ''developer'']"
proof -
  have u: "fitted_vocabulary (None :: (string list) tfidf option) = None"
    by (simp add: fitted_vocabulary_def)
  have g1: "get_embedding count_vectorizer None [] = Inr (Some (the_vectorizer None), np_zeros 384)"
    by (simp add: get_embedding_unfitted [OF u])
  have u2: "fitted_vocabulary (Some (the_vectorizer (None :: (string list) tfidf option))) = None"
    by (simp add: fitted_vocabulary_def the_vectorizer_def)
  have g2: "get_embedding count_vectorizer (Some (the_vectorizer None)) ''python developer'' =
      Inr (Some ((the_vectorizer None)\<lparr>vocabulary := Some [''python'', ''developer'']\<rparr>), fix_size [1, 1])"
    by (simp add: get_embedding_unfitted [OF u2] count_fit_python)
  have a: "fitted_vocabulary (fst (projr (get_embedding count_vectorizer None []))) = None"
    by (simp add: g1 u2)
  have b: "fitted_vocabulary (fst (projr (encode_session count_vectorizer None
         [[], ''python developer'']))) = Some [''python'', ''developer'']"
    by (simp add: g1 g2 fitted_vocabulary_def)
  from a b show ?thesis by (rule conjI)
qed

text \<open>
  C8, amended. For every sequence of documents encoded one after the other, whatever the
  state of the vectorizer when the sequence starts, no call raises and:
  if the vectorizer has no vocabulary at the start, every document before the first one
  that is not empty and on which fitting does not raise gets the zero vector of dimension
  384 and leaves the vectorizer without a vocabulary; that document fits the vocabulary
  and gets its own row, padded or truncated to 384; every document after it is encoded
  against that vocabulary by transform, without refitting (the zero vector when it is
  empty or transform raises); and the vocabulary at the end is the one that document
  fitted, or none if there is no such document.
  If the vectorizer has a vocabulary at the start (the module's vectorizer is never
  reset, so this is the state of every later run), no document fits anything: the
  vectorizer is left as it is and every document is encoded against the vocabulary it has.
  So a vocabulary is fitted at most once, and not necessarily by the first encode call.
\<close>

theorem vocabulary_fitted_by_first_success:
  "(fitted_vocabulary vectorizer = None \<longrightarrow>
      (\<exists>vectorizer'. encode_session lib vectorizer texts =
         Inr (vectorizer',
              map (\<lambda>t. np_zeros 384) (takeWhile (\<lambda>t. \<not> fits lib (the_vectorizer vectorizer) t) texts)
              @ (case dropWhile (\<lambda>t. \<not> fits lib (the_vectorizer vectorizer) t) texts of
                   [] \<Rightarrow> []
                 | t # later \<Rightarrow>
                     fix_size (snd (projr (fit_transform lib (the_vectorizer vectorizer) t)))
                     # map (encode_with_vocabulary lib
                              ((the_vectorizer vectorizer)
                                 \<lparr>vocabulary := Some (fst (projr (fit_transform lib (the_vectorizer vectorizer) t)))\<rparr>))
                         later))
       \<and> fitted_vocabulary vectorizer' =
           (case dropWhile (\<lambda>t. \<not> fits lib (the_vectorizer vectorizer) t) texts of
              [] \<Rightarrow> None
            | t # later \<Rightarrow> Some (fst (projr (fit_transform lib (the_vectorizer vectorizer) t))))))
   \<and> (fitted_vocabulary vectorizer = Some vocab \<longrightarrow>
        encode_session lib vectorizer texts =
          Inr (vectorizer, map (encode_with_vocabulary lib (the_vectorizer vectorizer)) texts))"
  using encode_session_without_vocabulary [of vectorizer lib texts]
        encode_session_with_vocabulary [of vectorizer vocab lib texts]
  by blast

theorem vocabulary_fitted_by_first_success_witness:
  "snd (projr (encode_session count_vectorizer None
       [[], ''a b'', ''python developer'', ''java developer'', []]))
     = [np_zeros 384, np_zeros 384, fix_size [1, 1], fix_size [0, 1], np_zeros 384]
   \<and> fitted_vocabulary (fst (projr (encode_session count_vectorizer None
       [[], ''a b'', ''python developer'', ''java developer'', []])))
     = Some [''python'', ''developer'']
   \<and> encode_session count_vectorizer
         (Some \<lparr>max_features = 384, vocabulary = Some [''python'', ''developer'']\<rparr>)
         [''java developer'', ''a b'']
     = Inr (Some \<lparr>max_features = 384, vocabulary = Some [''python'', ''developer'']\<rparr>,
            [fix_size [0, 1], fix_size [0, 0]])"
proof -
  let ?texts = "[[], ''a b'', ''python developer'', ''java developer'', []]"
  let ?v = "\<lparr>max_features = 384, vocabulary = Some [''python'', ''developer'']\<rparr>"
  let ?fresh = "the_vectorizer (None :: (string list) tfidf option)"
  have u: "fitted_vocabulary (None :: (string list) tfidf option) = None"
    by (simp add: fitted_vocabulary_def)
  have tw: "takeWhile (\<lambda>t. \<not> fits count_vectorizer ?fresh t) ?texts = [[], ''a b'']"
    by (simp add: fits_def count_fit_short count_fit_python)
  have dw: "dropWhile (\<lambda>t. \<not> fits count_vectorizer ?fresh t) ?texts
              = [''python developer'', ''java developer'', []]"
    by (simp add: fits_def count_fit_short count_fit_python)
  have v0: "?fresh\<lparr>vocabulary := Some [''python'', ''developer'']\<rparr> = ?v"
    by (simp add: the_vectorizer_def)
  have ej: "encode_with_vocabulary count_vectorizer ?v ''java developer'' = fix_size [0, 1]"
    by (simp add: encode_with_vocabulary_def count_transform_java)
  have ee: "encode_with_vocabulary count_vectorizer ?v [] = np_zeros 384"
    by (simp add: encode_with_vocabulary_def)
  have es: "encode_with_vocabulary count_vectorizer ?v ''a b'' = fix_size [0, 0]"
    by (simp add: encode_with_vocabulary_def count_vectorizer_def count_row_def
          regexp_tokenize_def is_word_char_def is_digit_def is_upper_def)
  from vocabulary_fitted_by_first_success [of None count_vectorizer ?texts] u
  obtain vectorizer' where
    e: "encode_session count_vectorizer None ?texts =
         Inr (vectorizer',
              map (\<lambda>t. np_zeros 384) (takeWhile (\<lambda>t. \<not> fits count_vectorizer ?fresh t) ?texts)
              @ (case dropWhile (\<lambda>t. \<not> fits count_vectorizer ?fresh t) ?texts of
                   [] \<Rightarrow> []
                 | t # later \<Rightarrow>
                     fix_size (snd (projr (fit_transform count_vectorizer ?fresh t)))
                     # map (encode_with_vocabulary count_vectorizer
                              (?fresh\<lparr>vocabulary := Some (fst (projr (fit_transform count_vectorizer ?fresh t)))\<rparr>))
                         later))"
    and fv: "fitted_vocabulary vectorizer' =
           (case dropWhile (\<lambda>t. \<not> fits count_vectorizer ?fresh t) ?texts of
              [] \<Rightarrow> None
            | t # later \<Rightarrow> Some (fst (projr (fit_transform count_vectorizer ?fresh t))))"
    by blast
  from e have a: "snd (projr (encode_session count_vectorizer None ?texts))
     = [np_zeros 384, np_zeros 384, fix_size [1, 1], fix_size [0, 1], np_zeros 384]"
    unfolding tw dw by (simp add: count_fit_python v0 ej ee)
  from e fv have b: "fitted_vocabulary (fst (projr (encode_session count_vectorizer None ?texts)))
     = Some [''python'', ''developer'']"
    unfolding dw by (simp add: count_fit_python)
  have fs: "fitted_vocabulary (Some ?v) = Some [''python'', ''developer'']"
    by (simp add: fitted_vocabulary_def)
  from vocabulary_fitted_by_first_success
         [of "Some ?v" count_vectorizer "[''java developer'', ''a b'']" "[''python'', ''developer'']"] fs
  have "encode_session count_vectorizer (Some ?v) [''java developer'', ''a b''] =
          Inr (Some ?v, map (encode_with_vocabulary count_vectorizer (the_vectorizer (Some ?v)))
                 [''java developer'', ''a b''])"
    by blast
  then have c: "encode_session count_vectorizer (Some ?v) [''java developer'', ''a b'']
     = Inr (Some ?v, [fix_size [0, 1], fix_size [0, 0]])"
    by (simp add: ej es)
  from a b c show ?thesis by (intro conjI)
qed

section \<open>Normalizing what is already normalized\<close>






























end
